theory Spec2Isabelle
  imports Main "HOL-Library.Sublist" "HOL-Library.Multiset"
begin

section \<open>Values and records\<close>

text \<open>
  The storage module (\<^verbatim>\<open>src/lib/database.ts\<close>) moves untyped values around: a field of a
  \<^verbatim>\<open>Partial<Hike>\<close> is a string or is missing, and statement parameters are \<^verbatim>\<open>any[]\<close>.
  The values that reach the module through its typed interface are strings, \<^verbatim>\<open>undefined\<close>
  and \<^verbatim>\<open>null\<close>. On these, \<^verbatim>\<open>===\<close> is equality of the datatype.
\<close>

datatype jsval = JUndefined | JNull | JStr string

text \<open>JavaScript truthiness: \<^verbatim>\<open>undefined\<close>, \<^verbatim>\<open>null\<close> and the empty string are falsy.\<close>

definition truthy :: "jsval \<Rightarrow> bool" where
  "truthy v = (case v of JUndefined \<Rightarrow> False | JNull \<Rightarrow> False | JStr s \<Rightarrow> s \<noteq> [])"

text \<open>The idiom \<^verbatim>\<open>v || ''\<close>.\<close>

definition orEmpty :: "jsval \<Rightarrow> jsval" where
  "orEmpty v = (if truthy v then v else JStr [])"

text \<open>
  \<^verbatim>\<open>interface Hike\<close>. The fields carry the prefix \<open>h_\<close> because \<open>id\<close> and \<open>length\<close> are
  constants of HOL. The rows of the fallback store are objects with the same twelve
  properties; reading a property that is absent gives \<^verbatim>\<open>undefined\<close>, so an absent
  property and one holding \<^verbatim>\<open>undefined\<close> are the same row here.
\<close>

record hike =
  h_id :: jsval
  h_name :: jsval
  h_location :: jsval
  h_date :: jsval
  h_parking :: jsval
  h_length :: jsval
  h_difficulty :: jsval
  h_description :: jsval
  h_weather :: jsval
  h_rating :: jsval
  h_companions :: jsval
  h_createdAt :: jsval

text \<open>\<^verbatim>\<open>params[i]\<close>: reading past the end of a JavaScript array gives \<^verbatim>\<open>undefined\<close>.\<close>

definition param :: "jsval list \<Rightarrow> nat \<Rightarrow> jsval" where
  "param ps i = (if i < length ps then ps ! i else JUndefined)"

text \<open>\<^verbatim>\<open>params[params.length - 1]\<close>: on the empty array this reads index \<open>-1\<close>, which is
  \<^verbatim>\<open>undefined\<close>.\<close>

definition lastParam :: "jsval list \<Rightarrow> jsval" where
  "lastParam ps = (if ps = [] then JUndefined else ps ! (length ps - 1))"

section \<open>Strings\<close>

text \<open>
  \<^verbatim>\<open>sql.trim().toUpperCase()\<close> and \<^verbatim>\<open>startsWith\<close>, on the ASCII range: every statement
  text of the module is ASCII.
\<close>

definition isWhiteSpace :: "char \<Rightarrow> bool" where
  "isWhiteSpace c = (c \<in> set [CHR '' '', CHR 0x09, CHR 0x0A, CHR 0x0B, CHR 0x0C, CHR 0x0D])"

fun trimEnd :: "string \<Rightarrow> string" where
  "trimEnd [] = []"
| "trimEnd (c # cs) =
     (case trimEnd cs of
        [] \<Rightarrow> (if isWhiteSpace c then [] else [c])
      | d # ds \<Rightarrow> c # d # ds)"

definition trim :: "string \<Rightarrow> string" where
  "trim s = trimEnd (dropWhile isWhiteSpace s)"

definition upperChar :: "char \<Rightarrow> char" where
  "upperChar c =
     (case map_of (zip ''abcdefghijklmnopqrstuvwxyz'' ''ABCDEFGHIJKLMNOPQRSTUVWXYZ'') c of
        None \<Rightarrow> c
      | Some u \<Rightarrow> u)"

definition toUpperCase :: "string \<Rightarrow> string" where
  "toUpperCase s = map upperChar s"

definition startsWith :: "string \<Rightarrow> string \<Rightarrow> bool" where
  "startsWith s p = prefix p s"

section \<open>The platform\<close>

text \<open>
  What the runtime provides and the repository does not define:
  \<^item> \<open>getTime v\<close> is \<^verbatim>\<open>new Date(v).getTime()\<close>, with \<open>None\<close> for \<^verbatim>\<open>NaN\<close> (an invalid date);
  \<^item> \<open>nativeExec\<close> is the embedded engine behind \<^verbatim>\<open>db.transaction\<close> and \<^verbatim>\<open>tx.executeSql\<close>:
    given a statement, its parameters and the engine's state \<open>'n\<close>, it reports an error
    message (\<open>Inl\<close>) or a result set, and the engine's next state.
\<close>

datatype resrow = HikeRow hike | CountRow nat

record 'n platform =
  getTime :: "jsval \<Rightarrow> int option"
  nativeExec :: "string \<Rightarrow> jsval list \<Rightarrow> 'n \<Rightarrow> (string + resrow list) \<times> 'n"

section \<open>The fallback store: \<^verbatim>\<open>createMockDatabase\<close>\<close>

text \<open>
  The store keeps its rows under one key of \<^verbatim>\<open>window.localStorage\<close>, as the text
  \<^verbatim>\<open>JSON.stringify\<close> makes of them, or in the array \<^verbatim>\<open>memoryRows\<close> when there is no
  \<^verbatim>\<open>localStorage\<close>. The text under the key is modelled by what \<^verbatim>\<open>JSON.parse\<close> makes of it:
  \<open>Unparseable\<close> when \<^verbatim>\<open>JSON.parse\<close> throws, \<open>Encoded rows\<close> when it returns the rows that
  \<^verbatim>\<open>writeAll\<close> serialised. \<open>storageItem = None\<close> is the key being absent, for which
  \<^verbatim>\<open>getItem\<close> returns \<^verbatim>\<open>null\<close>. The empty text, which the source reads as no rows without
  parsing it, is read like an unparseable one. The medium is taken to accept every write:
  \<^verbatim>\<open>setItem\<close> does not throw.
\<close>

datatype blob = Unparseable | Encoded "hike list"

record store =
  hasLocalStorage :: bool
  storageItem :: "blob option"
  memoryRows :: "hike list"

definition readAll :: "store \<Rightarrow> hike list" where
  "readAll st =
     (if hasLocalStorage st then
        (case storageItem st of
           None \<Rightarrow> []
         | Some Unparseable \<Rightarrow> []
         | Some (Encoded parsed) \<Rightarrow> parsed)
      else memoryRows st)"

definition writeAll :: "hike list \<Rightarrow> store \<Rightarrow> store" where
  "writeAll rows st =
     (if hasLocalStorage st then st\<lparr>storageItem := Some (Encoded rows)\<rparr>
      else st\<lparr>memoryRows := rows\<rparr>)"

text \<open>
  The comparator of the select branch,
  \<^verbatim>\<open>(a, b) => new Date(b.date).getTime() - new Date(a.date).getTime()\<close>.
  A difference with a \<^verbatim>\<open>NaN\<close> operand is \<^verbatim>\<open>NaN\<close>, which \<^verbatim>\<open>Array.prototype.sort\<close> reads as \<open>0\<close>.
\<close>

definition compareDates :: "(jsval \<Rightarrow> int option) \<Rightarrow> hike \<Rightarrow> hike \<Rightarrow> int" where
  "compareDates T a b =
     (case T (h_date b) of
        None \<Rightarrow> 0
      | Some tb \<Rightarrow> (case T (h_date a) of None \<Rightarrow> 0 | Some ta \<Rightarrow> tb - ta))"

text \<open>
  \<^verbatim>\<open>Array.prototype.sort\<close> with a comparator. ECMAScript requires the sort to be stable and
  leaves the algorithm open; the model is the stable insertion sort. An element goes
  before the first element that the comparator does not put before it.
\<close>

fun insertBy :: "('a \<Rightarrow> 'a \<Rightarrow> int) \<Rightarrow> 'a \<Rightarrow> 'a list \<Rightarrow> 'a list" where
  "insertBy cmp x [] = [x]"
| "insertBy cmp x (y # ys) = (if cmp x y \<le> 0 then x # y # ys else y # insertBy cmp x ys)"

definition sortBy :: "('a \<Rightarrow> 'a \<Rightarrow> int) \<Rightarrow> 'a list \<Rightarrow> 'a list" where
  "sortBy cmp xs = foldr (insertBy cmp) xs []"

text \<open>
  \<^verbatim>\<open>executeSql\<close> of the store's transaction object. The branches are tried in the order of
  the source. The result is what the \<^verbatim>\<open>success\<close> callback receives (\<open>Inr\<close>, the array of
  \<^verbatim>\<open>createResultRows\<close>) or what the \<^verbatim>\<open>error\<close> callback receives (\<open>Inl\<close>), and the store
  after the statement.
\<close>

definition executeSql ::
  "(jsval \<Rightarrow> int option) \<Rightarrow> string \<Rightarrow> jsval list \<Rightarrow> store \<Rightarrow> (string + resrow list) \<times> store"
where
  "executeSql T sql params st =
     (let normalized = toUpperCase (trim sql) in
      if startsWith normalized ''INSERT INTO HIKES'' then
        (let rows = readAll st;
             row = \<lparr>h_id = param params 0, h_name = param params 1,
                    h_location = param params 2, h_date = param params 3,
                    h_parking = param params 4, h_length = param params 5,
                    h_difficulty = param params 6, h_description = param params 7,
                    h_weather = param params 8, h_rating = param params 9,
                    h_companions = param params 10, h_createdAt = param params 11\<rparr>
         in (Inr [], writeAll (rows @ [row]) st))
      else if startsWith normalized ''SELECT * FROM HIKES'' then
        (Inr (map HikeRow (sortBy (compareDates T) (readAll st))), st)
      else if startsWith normalized ''DELETE FROM HIKES WHERE ID'' then
        (let id' = param params 0
         in (Inr [], writeAll (filter (\<lambda>r. h_id r \<noteq> id') (readAll st)) st))
      else if normalized = ''DELETE FROM HIKES'' then
        (Inr [], writeAll [] st)
      else if startsWith normalized ''UPDATE HIKES'' then
        (let id' = lastParam params
         in (Inr [],
             writeAll
               (map (\<lambda>r. if h_id r = id' then
                            r\<lparr>h_name := param params 0, h_location := param params 1,
                              h_date := param params 2, h_parking := param params 3,
                              h_length := param params 4, h_difficulty := param params 5,
                              h_description := param params 6, h_weather := param params 7,
                              h_rating := param params 8, h_companions := param params 9,
                              h_createdAt := param params 10\<rparr>
                          else r)
                  (readAll st))
               st))
      else if startsWith normalized ''SELECT COUNT(*)'' then
        (Inr [CountRow (length (readAll st))], st)
      else if startsWith normalized ''SELECT * FROM HIKES WHERE ID'' then
        (let id' = param params 0
         in (Inr (map HikeRow (filter (\<lambda>r. h_id r = id') (readAll st))), st))
      else if startsWith normalized ''DROP TABLE'' then
        (Inr [], writeAll [] st)
      else if startsWith normalized ''CREATE TABLE'' then
        (Inr [], st)
      else (Inr [], st))"

text \<open>
  Names for two expressions of \<^verbatim>\<open>executeSql\<close>: the row that the insert branch builds from
  the parameters, and what the update branch maps over the rows.
\<close>

definition insertedRow :: "jsval list \<Rightarrow> hike" where
  "insertedRow params =
     \<lparr>h_id = param params 0, h_name = param params 1,
      h_location = param params 2, h_date = param params 3,
      h_parking = param params 4, h_length = param params 5,
      h_difficulty = param params 6, h_description = param params 7,
      h_weather = param params 8, h_rating = param params 9,
      h_companions = param params 10, h_createdAt = param params 11\<rparr>"

definition updatedRow :: "jsval list \<Rightarrow> hike \<Rightarrow> hike" where
  "updatedRow params r =
     (if h_id r = lastParam params then
        r\<lparr>h_name := param params 0, h_location := param params 1,
          h_date := param params 2, h_parking := param params 3,
          h_length := param params 4, h_difficulty := param params 5,
          h_description := param params 6, h_weather := param params 7,
          h_rating := param params 8, h_companions := param params 9,
          h_createdAt := param params 10\<rparr>
      else r)"

section \<open>The storage service: \<^verbatim>\<open>DatabaseService\<close>\<close>

text \<open>
  What \<^verbatim>\<open>this.db\<close> can hold: the fallback store, a handle of the embedded engine with
  its state, or a handle that has no \<^verbatim>\<open>transaction\<close> function (what \<^verbatim>\<open>openDatabaseSync\<close>
  of the newer interface returns). \<open>db = None\<close> is \<^verbatim>\<open>null\<close>.
  One fallback store is live at a time; its closure state is the field \<open>mock\<close>.
\<close>

datatype 'n database = MockDb | NativeDb 'n | NoTransaction

record 'n service =
  db :: "'n database option"
  isInitialized :: bool
  mock :: store

text \<open>
  \<^verbatim>\<open>createMockDatabase()\<close> starts a store with an empty \<^verbatim>\<open>memoryRows\<close>; \<^verbatim>\<open>localStorage\<close> is
  the window's and keeps its content.
\<close>

definition createMockDatabase :: "'n service \<Rightarrow> 'n service" where
  "createMockDatabase s = s\<lparr>db := Some MockDb, mock := (mock s)\<lparr>memoryRows := []\<rparr>\<rparr>"

text \<open>
  The environment of the constructor: whether \<^verbatim>\<open>Platform.OS\<close> is \<^verbatim>\<open>'web'\<close>; for each of
  \<^verbatim>\<open>openDatabase\<close> and \<^verbatim>\<open>openDatabaseSync\<close> whether it is a function (\<open>None\<close>: it is not,
  or the module itself is falsy) and what calling it does; and whether a statement of the
  outer \<^verbatim>\<open>try\<close> block raises.
\<close>

datatype 'n opened = OpenThrows | OpenReturns "'n database option"

record 'n environment =
  isWeb :: bool
  openDatabase :: "'n opened option"
  openDatabaseSync :: "'n opened option"
  tryRaises :: bool

definition openAttempt :: "'n environment \<Rightarrow> 'n database option" where
  "openAttempt env =
     (case openDatabase env of
        Some OpenThrows \<Rightarrow> None
      | Some (OpenReturns h) \<Rightarrow> h
      | None \<Rightarrow>
          (case openDatabaseSync env of
             Some OpenThrows \<Rightarrow> None
           | Some (OpenReturns h) \<Rightarrow> h
           | None \<Rightarrow> None))"

definition initializeDatabase :: "'n environment \<Rightarrow> 'n service \<Rightarrow> 'n service" where
  "initializeDatabase env s =
     (if tryRaises env then (createMockDatabase s)\<lparr>isInitialized := True\<rparr>
      else if isWeb env then (createMockDatabase s)\<lparr>isInitialized := True\<rparr>
      else
        (case openAttempt env of
           Some dbInstance \<Rightarrow> s\<lparr>db := Some dbInstance, isInitialized := True\<rparr>
         | None \<Rightarrow> (createMockDatabase s)\<lparr>isInitialized := True\<rparr>))"

text \<open>The field initialisers and the constructor; \<open>st\<close> is the window's storage.\<close>

definition newService :: "'n environment \<Rightarrow> store \<Rightarrow> 'n service" where
  "newService env st = initializeDatabase env \<lparr>db = None, isInitialized = False, mock = st\<rparr>"

text \<open>
  \<^verbatim>\<open>DatabaseResult\<close>: \<open>Inr\<close> is \<^verbatim>\<open>{success: true, data}\<close> and \<open>Inl\<close> is
  \<^verbatim>\<open>{success: false, error}\<close>. The failure records which \<^verbatim>\<open>resolve\<close> call of
  \<^verbatim>\<open>executeTransaction\<close> made the result; \<open>errorText\<close> is the string in its \<^verbatim>\<open>error\<close> field.
\<close>

datatype failure = NotInitialized | TransactionUnavailable | BackendError string

fun errorText :: "failure \<Rightarrow> string" where
  "errorText NotInitialized = ''Database not initialized''"
| "errorText TransactionUnavailable = ''Database transaction function is not available''"
| "errorText (BackendError message) = message"

definition hasTransaction :: "'n database option \<Rightarrow> bool" where
  "hasTransaction d = (case d of Some MockDb \<Rightarrow> True | Some (NativeDb n) \<Rightarrow> True | _ \<Rightarrow> False)"

definition resolve :: "string + resrow list \<Rightarrow> failure + resrow list" where
  "resolve r = (case r of Inl message \<Rightarrow> Inl (BackendError message) | Inr result \<Rightarrow> Inr result)"

definition executeTransaction ::
  "'n platform \<Rightarrow> string \<Rightarrow> jsval list \<Rightarrow> 'n service \<Rightarrow> (failure + resrow list) \<times> 'n service"
where
  "executeTransaction P sql params s =
     (if \<not> isInitialized s \<or> db s = None then (Inl NotInitialized, s)
      else
        (let s1 = (if hasTransaction (db s) then s else createMockDatabase s) in
         if \<not> hasTransaction (db s1) then (Inl TransactionUnavailable, s1)
         else
           (case db s1 of
              Some (NativeDb n) \<Rightarrow>
                (let (r, n') = nativeExec P sql params n
                 in (resolve r, s1\<lparr>db := Some (NativeDb n')\<rparr>))
            | _ \<Rightarrow>
                (let (r, st') = executeSql (getTime P) sql params (mock s1)
                 in (resolve r, s1\<lparr>mock := st'\<rparr>)))))"

subsection \<open>The statements of the service\<close>

definition createTableSQL :: string where
  "createTableSQL =
     ''\<newline>      CREATE TABLE IF NOT EXISTS hikes (\<newline>'' @
     ''        id TEXT PRIMARY KEY NOT NULL,\<newline>'' @
     ''        name TEXT NOT NULL,\<newline>'' @
     ''        location TEXT NOT NULL,\<newline>'' @
     ''        date TEXT NOT NULL,\<newline>'' @
     ''        parking TEXT NOT NULL,\<newline>'' @
     ''        length TEXT NOT NULL,\<newline>'' @
     ''        difficulty TEXT NOT NULL,\<newline>'' @
     ''        description TEXT,\<newline>'' @
     ''        weather TEXT,\<newline>'' @
     ''        rating TEXT,\<newline>'' @
     ''        companions TEXT,\<newline>'' @
     ''        createdAt TEXT NOT NULL\<newline>'' @
     ''      );\<newline>    ''"

definition insertSQL :: string where
  "insertSQL =
     ''\<newline>      INSERT INTO hikes (id, name, location, date, parking, length, '' @
     ''difficulty, description, weather, rating, companions, createdAt)\<newline>'' @
     ''      VALUES (?, ?, ?, ?, ?, ?, ?, ?, ?, ?, ?, ?)\<newline>    ''"

definition selectAllSQL :: string where
  "selectAllSQL = ''SELECT * FROM hikes ORDER BY date DESC''"

definition selectByIdSQL :: string where
  "selectByIdSQL = ''SELECT * FROM hikes WHERE id = ?''"

definition updateSQL :: string where
  "updateSQL =
     ''\<newline>      UPDATE hikes \<newline>'' @
     ''      SET name = ?, location = ?, date = ?, parking = ?, length = ?, difficulty = ?, \<newline>'' @
     ''          description = ?, weather = ?, rating = ?, companions = ?\<newline>'' @
     ''      WHERE id = ?\<newline>    ''"

definition deleteSQL :: string where
  "deleteSQL = ''DELETE FROM hikes WHERE id = ?''"

definition deleteAllSQL :: string where
  "deleteAllSQL = ''DELETE FROM hikes''"

definition dropTableSQL :: string where
  "dropTableSQL = ''DROP TABLE IF EXISTS hikes''"

subsection \<open>The operations\<close>

definition initDatabase :: "'n platform \<Rightarrow> 'n service \<Rightarrow> (failure + resrow list) \<times> 'n service" where
  "initDatabase P s = executeTransaction P createTableSQL [] s"

text \<open>
  \<^verbatim>\<open>addHike\<close>: \<open>now\<close> is \<^verbatim>\<open>new Date().toISOString()\<close>. The field \<open>h_createdAt\<close> of the
  argument is not read (the parameter type is \<^verbatim>\<open>Omit<Hike, 'createdAt'>\<close>).
\<close>

definition hikeWithDefaults :: "hike \<Rightarrow> hike" where
  "hikeWithDefaults h =
     \<lparr>h_id = orEmpty (h_id h), h_name = orEmpty (h_name h),
      h_location = orEmpty (h_location h), h_date = orEmpty (h_date h),
      h_parking = orEmpty (h_parking h), h_length = orEmpty (h_length h),
      h_difficulty = orEmpty (h_difficulty h), h_description = orEmpty (h_description h),
      h_weather = orEmpty (h_weather h), h_rating = orEmpty (h_rating h),
      h_companions = orEmpty (h_companions h), h_createdAt = JUndefined\<rparr>"

definition addHikeParams :: "string \<Rightarrow> hike \<Rightarrow> jsval list" where
  "addHikeParams now h =
     (let d = hikeWithDefaults h in
      [h_id d, h_name d, h_location d, h_date d, h_parking d, h_length d, h_difficulty d,
       orEmpty (h_description d), orEmpty (h_weather d), orEmpty (h_rating d),
       orEmpty (h_companions d), JStr now])"

definition addHike ::
  "'n platform \<Rightarrow> string \<Rightarrow> hike \<Rightarrow> 'n service \<Rightarrow> (failure + resrow list) \<times> 'n service"
where
  "addHike P now h s = executeTransaction P insertSQL (addHikeParams now h) s"

definition getAllHikes :: "'n platform \<Rightarrow> 'n service \<Rightarrow> (failure + resrow list) \<times> 'n service" where
  "getAllHikes P s = executeTransaction P selectAllSQL [] s"

definition getHikeById ::
  "'n platform \<Rightarrow> jsval \<Rightarrow> 'n service \<Rightarrow> (failure + resrow option) \<times> 'n service"
where
  "getHikeById P id' s =
     (case executeTransaction P selectByIdSQL [id'] s of
        (Inr hikes, s') \<Rightarrow> (Inr (case hikes of [] \<Rightarrow> None | first # rest \<Rightarrow> Some first), s')
      | (Inl e, s') \<Rightarrow> (Inl e, s'))"

definition updateHike ::
  "'n platform \<Rightarrow> hike \<Rightarrow> 'n service \<Rightarrow> (failure + resrow list) \<times> 'n service"
where
  "updateHike P h s =
     executeTransaction P updateSQL
       [h_name h, h_location h, h_date h, h_parking h, h_length h, h_difficulty h,
        h_description h, h_weather h, h_rating h, h_companions h, h_id h] s"

definition deleteHike ::
  "'n platform \<Rightarrow> jsval \<Rightarrow> 'n service \<Rightarrow> (failure + resrow list) \<times> 'n service"
where
  "deleteHike P id' s = executeTransaction P deleteSQL [id'] s"

definition deleteAllHikes :: "'n platform \<Rightarrow> 'n service \<Rightarrow> (failure + resrow list) \<times> 'n service" where
  "deleteAllHikes P s = executeTransaction P deleteAllSQL [] s"

definition resetDatabase :: "'n platform \<Rightarrow> 'n service \<Rightarrow> (failure + resrow list) \<times> 'n service" where
  "resetDatabase P s =
     (case executeTransaction P dropTableSQL [] s of
        (Inl e, s') \<Rightarrow> (Inl e, s')
      | (Inr dropped, s') \<Rightarrow> initDatabase P s')"

text \<open>
  The exported wrapper \<^verbatim>\<open>addHike\<close>: it fills the defaults, calls the service and throws
  \<^verbatim>\<open>new Error(result.error)\<close> on a failure (\<open>Inl\<close>, the message).
\<close>

definition addHikeLegacy ::
  "'n platform \<Rightarrow> string \<Rightarrow> hike \<Rightarrow> 'n service \<Rightarrow> (string + unit) \<times> 'n service"
where
  "addHikeLegacy P now h s =
     (case addHike P now (hikeWithDefaults h) s of
        (Inl e, s') \<Rightarrow> (Inl (errorText e), s')
      | (Inr result, s') \<Rightarrow> (Inr (), s'))"

section \<open>A date parser for the examples\<close>

text \<open>
  The theorems below hold for every \<open>getTime\<close>. The closed examples need one: \<open>isoTime\<close>
  reads the two forms of the ECMAScript date-time format that the application stores,
  \<^verbatim>\<open>YYYY-MM-DD\<close> and the output of \<^verbatim>\<open>toISOString\<close>, \<^verbatim>\<open>YYYY-MM-DDTHH:mm:ss.sssZ\<close>, as
  milliseconds since 1970-01-01 UTC. \<^verbatim>\<open>new Date(undefined)\<close> is invalid and
  \<^verbatim>\<open>new Date(null)\<close> is time 0. Every other text is an invalid date here.
\<close>

definition digitValue :: "char \<Rightarrow> nat option" where
  "digitValue c = map_of (zip ''0123456789'' [0, 1, 2, 3, 4, 5, 6, 7, 8, 9]) c"

fun digitsValue :: "nat \<Rightarrow> string \<Rightarrow> nat option" where
  "digitsValue acc [] = Some acc"
| "digitsValue acc (c # cs) =
     (case digitValue c of None \<Rightarrow> None | Some d \<Rightarrow> digitsValue (10 * acc + d) cs)"

text \<open>Days from 1970-01-01 to a day of the proleptic Gregorian calendar.\<close>

definition daysFromCivil :: "int \<Rightarrow> int \<Rightarrow> int \<Rightarrow> int" where
  "daysFromCivil y m d =
     (let y' = (if m \<le> 2 then y - 1 else y);
          era = y' div 400;
          yoe = y' - era * 400;
          doy = (153 * (if m > 2 then m - 3 else m + 9) + 2) div 5 + d - 1;
          doe = yoe * 365 + yoe div 4 - yoe div 100 + doy
      in era * 146097 + doe - 719468)"

definition daysInMonth :: "nat \<Rightarrow> nat \<Rightarrow> nat" where
  "daysInMonth y m =
     (if m = 2 then (if y mod 4 = 0 \<and> (y mod 100 \<noteq> 0 \<or> y mod 400 = 0) then 29 else 28)
      else if m \<in> set [4, 6, 9, 11] then 30 else 31)"

definition isoDate :: "string \<Rightarrow> int option" where
  "isoDate s =
     (if length s = 10 \<and> s ! 4 = CHR ''-'' \<and> s ! 7 = CHR ''-'' then
        (case (digitsValue 0 (take 4 s), digitsValue 0 (take 2 (drop 5 s)),
               digitsValue 0 (take 2 (drop 8 s))) of
           (Some y, Some m, Some d) \<Rightarrow>
             (if 1 \<le> m \<and> m \<le> 12 \<and> 1 \<le> d \<and> d \<le> daysInMonth y m
              then Some (daysFromCivil (int y) (int m) (int d) * 86400000)
              else None)
         | _ \<Rightarrow> None)
      else None)"

definition isoClock :: "string \<Rightarrow> int option" where
  "isoClock s =
     (if length s = 14 \<and> s ! 0 = CHR ''T'' \<and> s ! 3 = CHR '':'' \<and> s ! 6 = CHR '':'' \<and>
         s ! 9 = CHR ''.'' \<and> s ! 13 = CHR ''Z'' then
        (case (digitsValue 0 (take 2 (drop 1 s)), digitsValue 0 (take 2 (drop 4 s)),
               digitsValue 0 (take 2 (drop 7 s)), digitsValue 0 (take 3 (drop 10 s))) of
           (Some h, Some mi, Some sec, Some ms) \<Rightarrow>
             (if h < 24 \<and> mi < 60 \<and> sec < 60
              then Some (int (((h * 60 + mi) * 60 + sec) * 1000 + ms))
              else None)
         | _ \<Rightarrow> None)
      else None)"

definition isoTime :: "jsval \<Rightarrow> int option" where
  "isoTime v =
     (case v of
        JUndefined \<Rightarrow> None
      | JNull \<Rightarrow> Some 0
      | JStr s \<Rightarrow>
          (if length s = 10 then isoDate s
           else
             (case (isoDate (take 10 s), isoClock (drop 10 s)) of
                (Some day, Some clock) \<Rightarrow> Some (day + clock)
              | _ \<Rightarrow> None)))"

section \<open>Vocabulary of the properties\<close>

text \<open>
  \<open>notOlder T a b\<close>: both dates are valid and the date of \<open>a\<close> is not before the date of
  \<open>b\<close>. \<open>validDates T rows\<close>: every row has a valid date. \<open>missing v\<close>: the value is
  \<^verbatim>\<open>undefined\<close> (also an omitted property) or \<^verbatim>\<open>null\<close>.
\<close>

definition notOlder :: "(jsval \<Rightarrow> int option) \<Rightarrow> hike \<Rightarrow> hike \<Rightarrow> bool" where
  "notOlder T a b =
     (case T (h_date a) of
        None \<Rightarrow> False
      | Some ta \<Rightarrow> (case T (h_date b) of None \<Rightarrow> False | Some tb \<Rightarrow> tb \<le> ta))"

definition validDates :: "(jsval \<Rightarrow> int option) \<Rightarrow> hike list \<Rightarrow> bool" where
  "validDates T rows = list_all (\<lambda>r. T (h_date r) \<noteq> None) rows"

definition missing :: "jsval \<Rightarrow> bool" where
  "missing v = (v = JUndefined \<or> v = JNull)"

text \<open>
  A client of the service is a sequence of \<^verbatim>\<open>executeTransaction\<close> calls; \<open>runAll\<close> collects
  their results.
\<close>

fun runAll ::
  "'n platform \<Rightarrow> (string \<times> jsval list) list \<Rightarrow> 'n service \<Rightarrow> (failure + resrow list) list"
where
  "runAll P [] s = []"
| "runAll P ((sql, params) # rest) s =
     (case executeTransaction P sql params s of (r, s') \<Rightarrow> r # runAll P rest s')"

text \<open>
  \<open>recording P\<close> is the engine of \<open>P\<close> with a journal: it does what the engine does and
  appends every statement it is handed to the journal.
\<close>

definition recording :: "'n platform \<Rightarrow> ('n \<times> (string \<times> jsval list) list) platform" where
  "recording P =
     \<lparr>getTime = getTime P,
      nativeExec = (\<lambda>sql params (n, journal).
        case nativeExec P sql params n of (r, n') \<Rightarrow> (r, (n', journal @ [(sql, params)])))\<rparr>"

section \<open>Example data\<close>

text \<open>A store in \<^verbatim>\<open>localStorage\<close> that holds the given rows.\<close>

definition localStore :: "hike list \<Rightarrow> store" where
  "localStore rows = \<lparr>hasLocalStorage = True, storageItem = Some (Encoded rows), memoryRows = []\<rparr>"

text \<open>A browser: the fallback store is selected; the engine is never called.\<close>

definition webPlatform :: "unit platform" where
  "webPlatform = \<lparr>getTime = isoTime, nativeExec = (\<lambda>sql params n. (Inr [], n))\<rparr>"

definition webEnvironment :: "unit environment" where
  "webEnvironment = \<lparr>isWeb = True, openDatabase = None, openDatabaseSync = None, tryRaises = False\<rparr>"

text \<open>An engine that fails every drop statement, and a device on which it opens.\<close>

definition brokenEngine :: "unit platform" where
  "brokenEngine =
     \<lparr>getTime = isoTime,
      nativeExec = (\<lambda>sql params n.
        if startsWith (toUpperCase (trim sql)) ''DROP TABLE'' then (Inl ''disk I/O error'', n)
        else (Inr [], n))\<rparr>"

definition nativeEnvironment :: "'n \<Rightarrow> 'n environment" where
  "nativeEnvironment n =
     \<lparr>isWeb = False, openDatabase = Some (OpenReturns (Some (NativeDb n))),
      openDatabaseSync = None, tryRaises = False\<rparr>"

definition snowdon :: hike where
  "snowdon =
     \<lparr>h_id = JStr ''1'', h_name = JStr ''Snowdon'', h_location = JStr ''Wales'',
      h_date = JStr ''2024-05-01T09:00:00.000Z'', h_parking = JStr ''Yes'',
      h_length = JStr ''8.5'', h_difficulty = JStr ''Hard'', h_description = JStr [],
      h_weather = JStr [], h_rating = JStr [], h_companions = JStr [],
      h_createdAt = JStr ''2024-05-02T08:00:00.000Z''\<rparr>"

definition benNevis :: hike where
  "benNevis =
     \<lparr>h_id = JStr ''2'', h_name = JStr ''Ben Nevis'', h_location = JStr ''Scotland'',
      h_date = JStr ''2024-06-01T09:00:00.000Z'', h_parking = JStr ''No'',
      h_length = JStr ''17'', h_difficulty = JStr ''Expert'', h_description = JStr [],
      h_weather = JStr [], h_rating = JStr [], h_companions = JStr [],
      h_createdAt = JStr ''2024-06-02T08:00:00.000Z''\<rparr>"

definition scafell :: hike where
  "scafell =
     \<lparr>h_id = JStr ''3'', h_name = JStr ''Scafell Pike'', h_location = JStr ''England'',
      h_date = JStr ''2024-05-01T09:00:00.000Z'', h_parking = JStr ''Yes'',
      h_length = JStr ''9'', h_difficulty = JStr ''Hard'', h_description = JStr [],
      h_weather = JStr [], h_rating = JStr [], h_companions = JStr [],
      h_createdAt = JStr ''2024-05-03T08:00:00.000Z''\<rparr>"

section \<open>Which branch a statement takes\<close>

text \<open>
  A text whose first word is not white space keeps its front under \<open>trim\<close>; so the front
  of a statement decides the \<^verbatim>\<open>startsWith\<close> tests.
\<close>

lemma trimEnd_keeps_front:
  "u \<noteq> [] \<Longrightarrow> \<not> isWhiteSpace (last u) \<Longrightarrow> \<exists>r. trimEnd (u @ v) = u @ r"
proof (induction u)
  case Nil
  then show ?case by simp
next
  case (Cons c u)
  show ?case
  proof (cases "u = []")
    case True
    with Cons.prems show ?thesis by (cases "trimEnd v") auto
  next
    case False
    with Cons obtain r where "trimEnd (u @ v) = u @ r" by auto
    with False show ?thesis by (cases u) auto
  qed
qed

lemma startsWith_front:
  assumes "dropWhile isWhiteSpace s = u @ v" and "u \<noteq> []" and "\<not> isWhiteSpace (last u)"
    and "prefix p (toUpperCase u)"
  shows "startsWith (toUpperCase (trim s)) p"
proof -
  obtain r where "trimEnd (u @ v) = u @ r"
    using trimEnd_keeps_front [OF assms(2,3)] by blast
  then have "toUpperCase (trim s) = toUpperCase u @ toUpperCase r"
    by (simp add: trim_def assms(1) toUpperCase_def)
  with assms(4) show ?thesis
    by (simp add: startsWith_def)
qed

lemma upper_front [simp]:
  "toUpperCase (c # cs) = upperChar c # toUpperCase cs" "toUpperCase [] = []"
  by (simp_all add: toUpperCase_def)

lemma insertSQL_kind: "startsWith (toUpperCase (trim insertSQL)) ''INSERT INTO HIKES''"
  by (rule startsWith_front [where u = "''INSERT INTO hikes''" and v = "drop 24 insertSQL"])
     (simp_all add: insertSQL_def isWhiteSpace_def upperChar_def)

lemma updateSQL_kind: "startsWith (toUpperCase (trim updateSQL)) ''UPDATE HIKES''"
  by (rule startsWith_front [where u = "''UPDATE hikes''" and v = "drop 19 updateSQL"])
     (simp_all add: updateSQL_def isWhiteSpace_def upperChar_def)

lemma createTableSQL_kind: "startsWith (toUpperCase (trim createTableSQL)) ''CREATE TABLE''"
  by (rule startsWith_front [where u = "''CREATE TABLE''" and v = "drop 19 createTableSQL"])
     (simp_all add: createTableSQL_def isWhiteSpace_def upperChar_def)

lemma selectAllSQL_norm: "toUpperCase (trim selectAllSQL) = ''SELECT * FROM HIKES ORDER BY DATE DESC''"
  by (simp add: selectAllSQL_def trim_def isWhiteSpace_def upperChar_def)

lemma selectByIdSQL_norm: "toUpperCase (trim selectByIdSQL) = ''SELECT * FROM HIKES WHERE ID = ?''"
  by (simp add: selectByIdSQL_def trim_def isWhiteSpace_def upperChar_def)

lemma deleteSQL_norm: "toUpperCase (trim deleteSQL) = ''DELETE FROM HIKES WHERE ID = ?''"
  by (simp add: deleteSQL_def trim_def isWhiteSpace_def upperChar_def)

lemma deleteAllSQL_norm: "toUpperCase (trim deleteAllSQL) = ''DELETE FROM HIKES''"
  by (simp add: deleteAllSQL_def trim_def isWhiteSpace_def upperChar_def)

lemma dropTableSQL_norm: "toUpperCase (trim dropTableSQL) = ''DROP TABLE IF EXISTS HIKES''"
  by (simp add: dropTableSQL_def trim_def isWhiteSpace_def upperChar_def)

section \<open>The branches of \<^verbatim>\<open>executeSql\<close>\<close>

lemma readAll_writeAll [simp]: "readAll (writeAll rows st) = rows"
  by (simp add: readAll_def writeAll_def)

lemma hasLocalStorage_writeAll [simp]: "hasLocalStorage (writeAll rows st) = hasLocalStorage st"
  by (simp add: writeAll_def)

lemma startsWithE:
  assumes "startsWith n p"
  obtains r where "n = p @ r"
  using assms by (auto simp add: startsWith_def prefix_def)

lemma executeSql_insert:
  "startsWith (toUpperCase (trim sql)) ''INSERT INTO HIKES'' \<Longrightarrow>
   executeSql T sql ps st = (Inr [], writeAll (readAll st @ [insertedRow ps]) st)"
  by (simp add: executeSql_def insertedRow_def)

lemma executeSql_select:
  assumes "startsWith (toUpperCase (trim sql)) ''SELECT * FROM HIKES''"
  shows "executeSql T sql ps st = (Inr (map HikeRow (sortBy (compareDates T) (readAll st))), st)"
proof -
  obtain r where "toUpperCase (trim sql) = ''SELECT * FROM HIKES'' @ r"
    using assms by (rule startsWithE)
  then show ?thesis
    by (simp add: executeSql_def startsWith_def)
qed

lemma executeSql_delete_by_id:
  assumes "startsWith (toUpperCase (trim sql)) ''DELETE FROM HIKES WHERE ID''"
  shows "executeSql T sql ps st =
     (Inr [], writeAll (filter (\<lambda>r. h_id r \<noteq> param ps 0) (readAll st)) st)"
proof -
  obtain r where "toUpperCase (trim sql) = ''DELETE FROM HIKES WHERE ID'' @ r"
    using assms by (rule startsWithE)
  then show ?thesis
    by (simp add: executeSql_def startsWith_def)
qed

lemma executeSql_delete_all:
  "toUpperCase (trim sql) = ''DELETE FROM HIKES'' \<Longrightarrow>
   executeSql T sql ps st = (Inr [], writeAll [] st)"
  by (simp add: executeSql_def startsWith_def)

lemma executeSql_update:
  assumes "startsWith (toUpperCase (trim sql)) ''UPDATE HIKES''"
  shows "executeSql T sql ps st = (Inr [], writeAll (map (updatedRow ps) (readAll st)) st)"
proof -
  obtain r where "toUpperCase (trim sql) = ''UPDATE HIKES'' @ r"
    using assms by (rule startsWithE)
  then show ?thesis
    by (simp add: executeSql_def startsWith_def updatedRow_def [abs_def])
qed

lemma executeSql_drop:
  assumes "startsWith (toUpperCase (trim sql)) ''DROP TABLE''"
  shows "executeSql T sql ps st = (Inr [], writeAll [] st)"
proof -
  obtain r where "toUpperCase (trim sql) = ''DROP TABLE'' @ r"
    using assms by (rule startsWithE)
  then show ?thesis
    by (simp add: executeSql_def startsWith_def)
qed

lemma executeSql_create:
  assumes "startsWith (toUpperCase (trim sql)) ''CREATE TABLE''"
  shows "executeSql T sql ps st = (Inr [], st)"
proof -
  obtain r where "toUpperCase (trim sql) = ''CREATE TABLE'' @ r"
    using assms by (rule startsWithE)
  then show ?thesis
    by (simp add: executeSql_def startsWith_def)
qed

section \<open>The sort of the select branch\<close>

text \<open>
  On rows whose dates are all valid the comparator is a total preorder, and the insertion
  sort is the library's stable \<open>sort_key\<close> on the negated time.
\<close>

lemma mset_insertBy: "mset (insertBy cmp x ys) = add_mset x (mset ys)"
  by (induction ys) simp_all

lemma mset_sortBy: "mset (sortBy cmp xs) = mset xs"
  by (induction xs) (simp_all add: sortBy_def mset_insertBy)

lemma insertBy_insort_key:
  assumes "T (h_date x) \<noteq> None" and "\<forall>y\<in>set ys. T (h_date y) \<noteq> None"
  shows "insertBy (compareDates T) x ys = insort_key (\<lambda>r. - the (T (h_date r))) x ys"
  using assms by (induction ys) (auto simp add: compareDates_def)

lemma sortBy_sort_key:
  assumes "\<forall>y\<in>set xs. T (h_date y) \<noteq> None"
  shows "sortBy (compareDates T) xs = sort_key (\<lambda>r. - the (T (h_date r))) xs"
  using assms
proof (induction xs)
  case Nil
  then show ?case by (simp add: sortBy_def)
next
  case (Cons x xs)
  then have "sortBy (compareDates T) xs = sort_key (\<lambda>r. - the (T (h_date r))) xs"
    by simp
  moreover have "sortBy (compareDates T) (x # xs) = insertBy (compareDates T) x (sortBy (compareDates T) xs)"
    by (simp add: sortBy_def)
  ultimately show ?case
    using Cons.prems by (simp add: insertBy_insort_key)
qed

lemma key_eq_iff: "a \<noteq> None \<Longrightarrow> (a = Some t) = (- the a = - (t::int))"
  by (cases a) simp_all

lemma the_eq_iff: "a \<noteq> None \<Longrightarrow> b \<noteq> None \<Longrightarrow> (the a = the b) = (a = b)"
  by (cases a; cases b) simp_all

lemma notOlder_key:
  "T (h_date a) \<noteq> None \<Longrightarrow> T (h_date b) \<noteq> None \<Longrightarrow>
   notOlder T a b = (- the (T (h_date a)) \<le> - the (T (h_date b)))"
  by (cases "T (h_date a)"; cases "T (h_date b)") (simp_all add: notOlder_def)

lemma sorted_by_key_notOlder:
  assumes "\<forall>y\<in>set ys. T (h_date y) \<noteq> None" and "sorted (map (\<lambda>r. - the (T (h_date r))) ys)"
  shows "sorted_wrt (notOlder T) ys"
proof -
  from assms(2) have "sorted_wrt (\<lambda>a b. - the (T (h_date a)) \<le> - the (T (h_date b))) ys"
    by (simp only: sorted_map)
  then show ?thesis
  proof (rule sorted_wrt_mono_rel [rotated])
    fix a b
    assume "a \<in> set ys" and "b \<in> set ys" and "- the (T (h_date a)) \<le> - the (T (h_date b))"
    with assms(1) show "notOlder T a b"
      by (simp add: notOlder_key)
  qed
qed

lemma filter_date_by_key:
  fixes T :: "jsval \<Rightarrow> int option"
  assumes "\<forall>y\<in>set ys. T (h_date y) \<noteq> None"
  shows "filter (\<lambda>r. T (h_date r) = Some t) ys = filter (\<lambda>r. - the (T (h_date r)) = - t) ys"
proof (rule filter_cong)
  fix x
  assume "x \<in> set ys"
  with assms have "T (h_date x) \<noteq> None" by simp
  then show "(T (h_date x) = Some t) = (- the (T (h_date x)) = - t)"
    by (rule key_eq_iff)
qed simp

lemma sortBy_dates:
  assumes valid: "validDates T xs"
  shows "sorted_wrt (notOlder T) (sortBy (compareDates T) xs)"
    and "filter (\<lambda>r. T (h_date r) = t) (sortBy (compareDates T) xs) = filter (\<lambda>r. T (h_date r) = t) xs"
    and "mset xs' = mset xs \<Longrightarrow> distinct (map (\<lambda>r. T (h_date r)) xs) \<Longrightarrow>
         sortBy (compareDates T) xs' = sortBy (compareDates T) xs"
proof -
  let ?key = "\<lambda>r. - the (T (h_date r))"
  from valid have v: "\<forall>y\<in>set xs. T (h_date y) \<noteq> None"
    by (simp add: validDates_def list_all_iff)
  then have eq: "sortBy (compareDates T) xs = sort_key ?key xs"
    by (rule sortBy_sort_key)
  have v': "\<forall>y\<in>set (sort_key ?key xs). T (h_date y) \<noteq> None"
    using v by simp
  show "sorted_wrt (notOlder T) (sortBy (compareDates T) xs)"
    unfolding eq using v' by (rule sorted_by_key_notOlder) simp
  show "filter (\<lambda>r. T (h_date r) = t) (sortBy (compareDates T) xs) = filter (\<lambda>r. T (h_date r) = t) xs"
  proof (cases t)
    case None
    with v v' show ?thesis unfolding eq by (simp add: filter_empty_conv)
  next
    case (Some u)
    show ?thesis
      unfolding eq Some filter_date_by_key [OF v] filter_date_by_key [OF v']
      by (rule sort_key_stable)
  qed
  show "sortBy (compareDates T) xs' = sortBy (compareDates T) xs"
    if m: "mset xs' = mset xs" and d: "distinct (map (\<lambda>r. T (h_date r)) xs)"
  proof -
    from m have s: "set xs' = set xs" by (rule mset_eq_setD)
    with v have eq': "sortBy (compareDates T) xs' = sort_key ?key xs'"
      by (intro sortBy_sort_key) simp
    from d have "inj_on (\<lambda>r. T (h_date r)) (set xs)"
      by (simp add: distinct_map)
    with v have "inj_on ?key (set xs)"
      by (simp add: inj_on_def the_eq_iff)
    with s have i: "inj_on ?key (set xs')" by simp
    have "mset xs' = mset (sort_key ?key xs)" using m by simp
    moreover note i
    moreover have "sorted (map ?key (sort_key ?key xs))" by simp
    ultimately have "sort_key ?key xs' = sort_key ?key xs"
      by (rule sort_key_inj_key_eq)
    with eq eq' show ?thesis by simp
  qed
qed

text \<open>
  Claim C4, amended. A statement that takes the select branch returns all stored rows.
  When every stored date is valid, the rows come newest first, and rows of equal date
  keep the order in which they are stored (the sort is stable). When moreover the stored
  dates are pairwise different, every store holding the same rows in any other order
  gives the same result.
\<close>

theorem select_all_ordering:
  assumes "startsWith (toUpperCase (trim sql)) ''SELECT * FROM HIKES''"
  shows "\<exists>ys. executeSql T sql ps st = (Inr (map HikeRow ys), st) \<and>
           mset ys = mset (readAll st) \<and>
           (validDates T (readAll st) \<longrightarrow>
              sorted_wrt (notOlder T) ys \<and>
              (\<forall>t. filter (\<lambda>r. T (h_date r) = t) ys = filter (\<lambda>r. T (h_date r) = t) (readAll st)) \<and>
              (\<forall>st'. mset (readAll st') = mset (readAll st) \<and>
                     distinct (map (\<lambda>r. T (h_date r)) (readAll st)) \<longrightarrow>
                     executeSql T sql ps st' = (Inr (map HikeRow ys), st')))"
proof (intro exI conjI impI allI)
  show "executeSql T sql ps st = (Inr (map HikeRow (sortBy (compareDates T) (readAll st))), st)"
    using assms by (rule executeSql_select)
  show "mset (sortBy (compareDates T) (readAll st)) = mset (readAll st)"
    by (rule mset_sortBy)
next
  assume "validDates T (readAll st)"
  then show "sorted_wrt (notOlder T) (sortBy (compareDates T) (readAll st))"
    by (rule sortBy_dates(1))
next
  fix t
  assume "validDates T (readAll st)"
  then show "filter (\<lambda>r. T (h_date r) = t) (sortBy (compareDates T) (readAll st)) =
             filter (\<lambda>r. T (h_date r) = t) (readAll st)"
    by (rule sortBy_dates(2))
next
  fix st'
  assume v: "validDates T (readAll st)"
    and "mset (readAll st') = mset (readAll st) \<and> distinct (map (\<lambda>r. T (h_date r)) (readAll st))"
  then have "sortBy (compareDates T) (readAll st') = sortBy (compareDates T) (readAll st)"
    using sortBy_dates(3) [OF v] by blast
  then show "executeSql T sql ps st' = (Inr (map HikeRow (sortBy (compareDates T) (readAll st))), st')"
    using executeSql_select [OF assms, of T ps st'] by simp
qed

section \<open>The examples\<close>

lemmas isoTime_defs = isoTime_def isoDate_def isoClock_def digitValue_def daysFromCivil_def daysInMonth_def

lemma isoTime_snowdon: "isoTime (h_date snowdon) = Some 1714554000000"
  by (simp add: snowdon_def isoTime_defs)

lemma isoTime_benNevis: "isoTime (h_date benNevis) = Some 1717232400000"
  by (simp add: benNevis_def isoTime_defs)

lemma isoTime_scafell: "isoTime (h_date scafell) = Some 1714554000000"
  by (simp add: scafell_def isoTime_defs)

lemmas example_times = isoTime_snowdon isoTime_benNevis isoTime_scafell

lemma executeTransaction_mock:
  assumes "isInitialized s" and "db s = Some MockDb"
  shows "executeTransaction P sql ps s =
     (resolve (fst (executeSql (getTime P) sql ps (mock s))),
      s\<lparr>mock := snd (executeSql (getTime P) sql ps (mock s))\<rparr>)"
  using assms by (simp add: executeTransaction_def hasTransaction_def split_def Let_def)

lemma selectByIdSQL_kind: "startsWith (toUpperCase (trim selectByIdSQL)) ''SELECT * FROM HIKES''"
  by (simp add: selectByIdSQL_norm startsWith_def)

lemma selectAllSQL_kind: "startsWith (toUpperCase (trim selectAllSQL)) ''SELECT * FROM HIKES''"
  by (simp add: selectAllSQL_norm startsWith_def)

lemma deleteSQL_kind: "startsWith (toUpperCase (trim deleteSQL)) ''DELETE FROM HIKES WHERE ID''"
  by (simp add: deleteSQL_norm startsWith_def)

lemma dropTableSQL_kind: "startsWith (toUpperCase (trim dropTableSQL)) ''DROP TABLE''"
  by (simp add: dropTableSQL_norm startsWith_def)

lemma sort_two_newer_last:
  "sortBy (compareDates isoTime) [snowdon, benNevis] = [benNevis, snowdon]"
  by (simp add: sortBy_def compareDates_def example_times)

text \<open>
  Claim C2, the code at a failing input. The store holds the hikes with ids 1 and 2. The
  statement of \<^verbatim>\<open>getHikeById\<close> with the parameter 1 starts with
  \<^verbatim>\<open>SELECT * FROM HIKES\<close>, so the branch for all rows takes it: the result holds both
  rows, newest first, and the row with id 2 is among them.
\<close>

theorem select_by_id_returns_every_row:
  "executeSql isoTime selectByIdSQL [JStr ''1''] (localStore [snowdon, benNevis]) =
     (Inr [HikeRow benNevis, HikeRow snowdon], localStore [snowdon, benNevis]) \<and>
   h_id benNevis = JStr ''2''"
proof -
  have "readAll (localStore [snowdon, benNevis]) = [snowdon, benNevis]"
    by (simp add: readAll_def localStore_def)
  then have "executeSql isoTime selectByIdSQL [JStr ''1''] (localStore [snowdon, benNevis]) =
     (Inr [HikeRow benNevis, HikeRow snowdon], localStore [snowdon, benNevis])"
    by (simp add: executeSql_select [OF selectByIdSQL_kind] sort_two_newer_last)
  moreover have "h_id benNevis = JStr ''2''"
    by (simp add: benNevis_def)
  ultimately show ?thesis by simp
qed

text \<open>
  Claim C4 as stated fails at two rows of one date: stored in either order, the same two
  rows come back in the order in which they are stored, so the result depends on the
  order of insertion.
\<close>

theorem select_all_ties_follow_insertion_order:
  "executeSql isoTime selectAllSQL [] (localStore [snowdon, scafell]) =
     (Inr [HikeRow snowdon, HikeRow scafell], localStore [snowdon, scafell]) \<and>
   executeSql isoTime selectAllSQL [] (localStore [scafell, snowdon]) =
     (Inr [HikeRow scafell, HikeRow snowdon], localStore [scafell, snowdon]) \<and>
   snowdon \<noteq> scafell"
proof -
  have "readAll (localStore [snowdon, scafell]) = [snowdon, scafell]"
    and "readAll (localStore [scafell, snowdon]) = [scafell, snowdon]"
    by (simp_all add: readAll_def localStore_def)
  moreover have "sortBy (compareDates isoTime) [snowdon, scafell] = [snowdon, scafell]"
    and "sortBy (compareDates isoTime) [scafell, snowdon] = [scafell, snowdon]"
    by (simp_all add: sortBy_def compareDates_def example_times)
  moreover have "snowdon \<noteq> scafell"
    by (simp add: snowdon_def scafell_def)
  ultimately show ?thesis
    by (simp add: executeSql_select [OF selectAllSQL_kind])
qed

text \<open>
  The amended claim C4 at two rows of different dates, stored in either order: both
  stores give the newer row first.
\<close>

theorem select_all_ordering_witness:
  "\<exists>ys. executeSql isoTime selectAllSQL [] (localStore [snowdon, benNevis]) =
           (Inr (map HikeRow ys), localStore [snowdon, benNevis]) \<and>
         mset ys = mset [snowdon, benNevis] \<and>
         sorted_wrt (notOlder isoTime) ys \<and>
         filter (\<lambda>r. isoTime (h_date r) = Some 1717232400000) ys = [benNevis] \<and>
         executeSql isoTime selectAllSQL [] (localStore [benNevis, snowdon]) =
           (Inr (map HikeRow ys), localStore [benNevis, snowdon])"
proof -
  let ?st = "localStore [snowdon, benNevis]" and ?st' = "localStore [benNevis, snowdon]"
  have r: "readAll ?st = [snowdon, benNevis]" and r': "readAll ?st' = [benNevis, snowdon]"
    by (simp_all add: readAll_def localStore_def)
  have v: "validDates isoTime (readAll ?st)"
    by (simp add: r validDates_def example_times)
  have d: "distinct (map (\<lambda>r. isoTime (h_date r)) (readAll ?st))"
    by (simp add: r example_times)
  have m: "mset (readAll ?st') = mset (readAll ?st)"
    by (simp add: r r')
  have f: "filter (\<lambda>r. isoTime (h_date r) = Some 1717232400000) (readAll ?st) = [benNevis]"
    by (simp add: r example_times)
  from select_all_ordering [OF selectAllSQL_kind, of isoTime "[]" ?st] v
  obtain ys where "executeSql isoTime selectAllSQL [] ?st = (Inr (map HikeRow ys), ?st)"
    and "mset ys = mset (readAll ?st)"
    and "sorted_wrt (notOlder isoTime) ys"
    and "\<And>t. filter (\<lambda>r. isoTime (h_date r) = t) ys = filter (\<lambda>r. isoTime (h_date r) = t) (readAll ?st)"
    and "\<And>st'. mset (readAll st') = mset (readAll ?st) \<Longrightarrow>
           distinct (map (\<lambda>r. isoTime (h_date r)) (readAll ?st)) \<Longrightarrow>
           executeSql isoTime selectAllSQL [] st' = (Inr (map HikeRow ys), st')"
    by blast
  with d m f r show ?thesis
    by (intro exI [of _ ys]) simp
qed

lemma readAll_localStore [simp]: "readAll (localStore rows) = rows"
  by (simp add: readAll_def localStore_def)

lemma writeAll_localStore [simp]: "writeAll rows' (localStore rows) = localStore rows'"
  by (simp add: writeAll_def localStore_def)

lemma newService_web:
  "newService webEnvironment (localStore rows) =
     \<lparr>db = Some MockDb, isInitialized = True, mock = localStore rows\<rparr>"
  by (simp add: newService_def initializeDatabase_def webEnvironment_def createMockDatabase_def
        localStore_def)

lemma addHikeParams_snowdon:
  "insertedRow (addHikeParams ''2024-05-02T08:00:00.000Z'' snowdon) = snowdon"
  by (simp add: insertedRow_def addHikeParams_def hikeWithDefaults_def snowdon_def orEmpty_def
        truthy_def param_def)

text \<open>
  Claim C1, the code at a failing input. In a browser, the store holds the hike with id 2
  and a later date. After \<^verbatim>\<open>addHike\<close> of the hike with id 1, \<^verbatim>\<open>getHikeById\<close> of id 1 returns
  the hike with id 2: the statement takes the branch for all rows, and the service takes
  the first row of the result, the newest one.
\<close>

theorem create_then_get_returns_newest:
  "fst (getHikeById webPlatform (JStr ''1'')
          (snd (addHike webPlatform ''2024-05-02T08:00:00.000Z'' snowdon
                  (newService webEnvironment (localStore [benNevis]))))) =
     Inr (Some (HikeRow benNevis)) \<and>
   h_id snowdon = JStr ''1'' \<and> h_id benNevis = JStr ''2''"
proof -
  let ?s = "\<lparr>db = Some MockDb, isInitialized = True, mock = localStore [benNevis]\<rparr> :: unit service"
  have "snd (addHike webPlatform ''2024-05-02T08:00:00.000Z'' snowdon ?s) =
          \<lparr>db = Some MockDb, isInitialized = True, mock = localStore [benNevis, snowdon]\<rparr>"
    by (simp add: addHike_def executeTransaction_mock executeSql_insert [OF insertSQL_kind]
          addHikeParams_snowdon)
  moreover have "fst (getHikeById webPlatform (JStr ''1'')
      \<lparr>db = Some MockDb, isInitialized = True, mock = localStore [benNevis, snowdon]\<rparr>) =
        Inr (Some (HikeRow benNevis))"
    by (simp add: getHikeById_def executeTransaction_mock executeSql_select [OF selectByIdSQL_kind]
          webPlatform_def resolve_def sortBy_def compareDates_def example_times)
  moreover have "h_id snowdon = JStr ''1''" and "h_id benNevis = JStr ''2''"
    by (simp_all add: snowdon_def benNevis_def)
  ultimately show ?thesis
    by (simp add: newService_web)
qed

text \<open>
  Claim C3, the code at a failing input. \<^verbatim>\<open>updateHike\<close> passes eleven parameters, the id
  last; the update branch of the fallback store writes \<^verbatim>\<open>params[10]\<close>, which is the id,
  to \<^verbatim>\<open>createdAt\<close>. After updating the stored hike with itself, its \<^verbatim>\<open>createdAt\<close> is its
  id.
\<close>

theorem update_overwrites_createdAt:
  "readAll (mock (snd (updateHike webPlatform snowdon
      (newService webEnvironment (localStore [snowdon]))))) =
     [snowdon\<lparr>h_createdAt := JStr ''1''\<rparr>] \<and>
   h_createdAt snowdon = JStr ''2024-05-02T08:00:00.000Z''"
proof -
  have "updatedRow [h_name snowdon, h_location snowdon, h_date snowdon, h_parking snowdon,
          h_length snowdon, h_difficulty snowdon, h_description snowdon, h_weather snowdon,
          h_rating snowdon, h_companions snowdon, h_id snowdon] snowdon =
        snowdon\<lparr>h_createdAt := JStr ''1''\<rparr>"
    by (simp add: updatedRow_def lastParam_def param_def snowdon_def)
  then have "readAll (mock (snd (updateHike webPlatform snowdon
      \<lparr>db = Some MockDb, isInitialized = True, mock = localStore [snowdon]\<rparr>))) =
     [snowdon\<lparr>h_createdAt := JStr ''1''\<rparr>]"
    by (simp add: updateHike_def executeTransaction_mock executeSql_update [OF updateSQL_kind])
  moreover have "h_createdAt snowdon = JStr ''2024-05-02T08:00:00.000Z''"
    by (simp add: snowdon_def)
  ultimately show ?thesis
    by (simp add: newService_web)
qed

section \<open>Update, delete and unreadable data in the fallback store\<close>

text \<open>
  Claim C5. For every statement that takes the update branch, with any parameters and on
  any store: the statement succeeds, the stored list keeps its length, every row whose id
  is not the id parameter (the last parameter) is the same row at the same place, and
  when no row has that id the stored list is unchanged.
\<close>
theorem update_leaves_other_rows:
  assumes "startsWith (toUpperCase (trim sql)) ''UPDATE HIKES''"
  shows "fst (executeSql T sql ps st) = Inr [] \<and>
         length (readAll (snd (executeSql T sql ps st))) = length (readAll st) \<and>
         (\<forall>i<length (readAll st).
            h_id (readAll st ! i) \<noteq> lastParam ps \<longrightarrow>
            readAll (snd (executeSql T sql ps st)) ! i = readAll st ! i) \<and>
         ((\<forall>r\<in>set (readAll st). h_id r \<noteq> lastParam ps) \<longrightarrow>
            readAll (snd (executeSql T sql ps st)) = readAll st)"
proof -
  have e: "executeSql T sql ps st = (Inr [], writeAll (map (updatedRow ps) (readAll st)) st)"
    using assms by (rule executeSql_update)
  have same: "updatedRow ps r = r" if "h_id r \<noteq> lastParam ps" for r
    using that by (simp add: updatedRow_def)
  have "map (updatedRow ps) (readAll st) = readAll st"
    if "\<forall>r\<in>set (readAll st). h_id r \<noteq> lastParam ps"
    using that by (simp add: same map_idI)
  then show ?thesis
    by (simp add: e same)
qed

text \<open>
  Claim C5 at the store holding the hikes 2 and 1: updating hike 1 leaves hike 2 as it
  is, and an update for the id 7, which no row has, leaves the list as it is.
\<close>

theorem update_leaves_other_rows_witness:
  "readAll (snd (executeSql isoTime updateSQL
      [JStr ''Yr Wyddfa'', JStr ''Wales'', JStr ''2024-05-01T09:00:00.000Z'', JStr ''Yes'',
       JStr ''8.5'', JStr ''Hard'', JStr [], JStr [], JStr [], JStr [], JStr ''1'']
      (localStore [benNevis, snowdon]))) ! 0 = benNevis \<and>
   readAll (snd (executeSql isoTime updateSQL [JStr ''x'', JStr ''7'']
      (localStore [benNevis, snowdon]))) = [benNevis, snowdon]"
proof -
  let ?ps = "[JStr ''Yr Wyddfa'', JStr ''Wales'', JStr ''2024-05-01T09:00:00.000Z'', JStr ''Yes'',
       JStr ''8.5'', JStr ''Hard'', JStr [], JStr [], JStr [], JStr [], JStr ''1'']"
  have ids: "h_id benNevis = JStr ''2''" "h_id snowdon = JStr ''1''"
    by (simp_all add: benNevis_def snowdon_def)
  have "lastParam ?ps = JStr ''1''" and "lastParam [JStr ''x'', JStr ''7''] = JStr ''7''"
    by (simp_all add: lastParam_def)
  with ids show ?thesis
    using update_leaves_other_rows [OF updateSQL_kind, of isoTime ?ps "localStore [benNevis, snowdon]"]
      update_leaves_other_rows [OF updateSQL_kind, of isoTime "[JStr ''x'', JStr ''7'']"
        "localStore [benNevis, snowdon]"]
    by simp
qed

text \<open>
  Claim C7. On a service bound to the fallback store: \<^verbatim>\<open>deleteHike\<close> with an id that no
  stored row has succeeds and leaves the stored list unchanged; \<^verbatim>\<open>deleteAllHikes\<close>
  succeeds and empties the stored list, and \<^verbatim>\<open>getAllHikes\<close> after it returns the empty
  sequence.
\<close>
theorem delete_absent_and_delete_all:
  assumes "isInitialized s" and "db s = Some MockDb"
  shows "((\<forall>r\<in>set (readAll (mock s)). h_id r \<noteq> i) \<longrightarrow>
            fst (deleteHike P i s) = Inr [] \<and>
            readAll (mock (snd (deleteHike P i s))) = readAll (mock s)) \<and>
         fst (deleteAllHikes P s) = Inr [] \<and>
         readAll (mock (snd (deleteAllHikes P s))) = [] \<and>
         fst (getAllHikes P (snd (deleteAllHikes P s))) = Inr []"
proof -
  have del: "deleteHike P i s =
      (Inr [], s\<lparr>mock := writeAll (filter (\<lambda>r. h_id r \<noteq> i) (readAll (mock s))) (mock s)\<rparr>)"
    using assms
    by (simp add: deleteHike_def executeTransaction_mock executeSql_delete_by_id [OF deleteSQL_kind]
          resolve_def param_def)
  have all: "deleteAllHikes P s = (Inr [], s\<lparr>mock := writeAll [] (mock s)\<rparr>)"
    using assms
    by (simp add: deleteAllHikes_def executeTransaction_mock
          executeSql_delete_all [OF deleteAllSQL_norm] resolve_def)
  have list: "fst (getAllHikes P (s\<lparr>mock := writeAll [] (mock s)\<rparr>)) = Inr []"
    using assms
    by (simp add: getAllHikes_def executeTransaction_mock executeSql_select [OF selectAllSQL_kind]
          resolve_def sortBy_def)
  have "filter (\<lambda>r. h_id r \<noteq> i) (readAll (mock s)) = readAll (mock s)"
    if "\<forall>r\<in>set (readAll (mock s)). h_id r \<noteq> i"
    using that by simp
  then show ?thesis
    by (simp add: del all list)
qed

text \<open>
  Claim C7 in a browser whose store holds the hikes 1 and 2: deleting the id 9 changes
  nothing, and after deleting all the list is empty.
\<close>

theorem delete_absent_and_delete_all_witness:
  "fst (deleteHike webPlatform (JStr ''9'') (newService webEnvironment (localStore [snowdon, benNevis]))) = Inr [] \<and>
   readAll (mock (snd (deleteHike webPlatform (JStr ''9'')
      (newService webEnvironment (localStore [snowdon, benNevis]))))) = [snowdon, benNevis] \<and>
   fst (getAllHikes webPlatform (snd (deleteAllHikes webPlatform
      (newService webEnvironment (localStore [snowdon, benNevis]))))) = Inr []"
proof -
  have "h_id benNevis = JStr ''2''" "h_id snowdon = JStr ''1''"
    by (simp_all add: benNevis_def snowdon_def)
  then show ?thesis
    using delete_absent_and_delete_all [of "newService webEnvironment (localStore [snowdon, benNevis])"
        "JStr ''9''" webPlatform]
    by (simp add: newService_web)
qed

text \<open>
  Every statement reads the store through \<open>readAll\<close> only, and every statement succeeds.
\<close>
lemma executeSql_reads_only:
  assumes "readAll st = readAll st0" and "hasLocalStorage st = hasLocalStorage st0"
  shows "fst (executeSql T sql ps st) = fst (executeSql T sql ps st0) \<and>
         readAll (snd (executeSql T sql ps st)) = readAll (snd (executeSql T sql ps st0))"
  using assms by (simp add: executeSql_def Let_def)

lemma executeSql_succeeds: "\<exists>result. fst (executeSql T sql ps st) = Inr result"
  by (simp add: executeSql_def Let_def)

text \<open>
  Claim C9. When the text under the key cannot be parsed, \<open>readAll\<close> returns the empty
  list, and every statement succeeds with the result, and leaves the stored list, that it
  gives on the store holding the empty list.
\<close>

theorem unreadable_blob_reads_as_empty:
  assumes "hasLocalStorage st" and "storageItem st = Some Unparseable"
  shows "readAll st = [] \<and>
         (\<exists>result. fst (executeSql T sql ps st) = Inr result) \<and>
         fst (executeSql T sql ps st) =
           fst (executeSql T sql ps (st\<lparr>storageItem := Some (Encoded [])\<rparr>)) \<and>
         readAll (snd (executeSql T sql ps st)) =
           readAll (snd (executeSql T sql ps (st\<lparr>storageItem := Some (Encoded [])\<rparr>)))"
proof -
  have r: "readAll st = []"
    using assms by (simp add: readAll_def)
  moreover have "readAll (st\<lparr>storageItem := Some (Encoded [])\<rparr>) = []"
    using assms by (simp add: readAll_def)
  ultimately have "readAll st = readAll (st\<lparr>storageItem := Some (Encoded [])\<rparr>)"
    by simp
  moreover have "hasLocalStorage st = hasLocalStorage (st\<lparr>storageItem := Some (Encoded [])\<rparr>)"
    by simp
  ultimately have "fst (executeSql T sql ps st) =
           fst (executeSql T sql ps (st\<lparr>storageItem := Some (Encoded [])\<rparr>)) \<and>
         readAll (snd (executeSql T sql ps st)) =
           readAll (snd (executeSql T sql ps (st\<lparr>storageItem := Some (Encoded [])\<rparr>)))"
    by (rule executeSql_reads_only)
  with r executeSql_succeeds [of T sql ps st] show ?thesis
    by simp
qed

text \<open>
  Claim C9 at a store with an unreadable text: select-all returns no row, and an insert
  leaves exactly the inserted row.
\<close>

theorem unreadable_blob_reads_as_empty_witness:
  "readAll \<lparr>hasLocalStorage = True, storageItem = Some Unparseable, memoryRows = []\<rparr> = [] \<and>
   fst (executeSql isoTime selectAllSQL []
          \<lparr>hasLocalStorage = True, storageItem = Some Unparseable, memoryRows = []\<rparr>) = Inr [] \<and>
   readAll (snd (executeSql isoTime insertSQL (addHikeParams ''2024-05-02T08:00:00.000Z'' snowdon)
          \<lparr>hasLocalStorage = True, storageItem = Some Unparseable, memoryRows = []\<rparr>)) = [snowdon]"
proof -
  let ?st = "\<lparr>hasLocalStorage = True, storageItem = Some Unparseable, memoryRows = []\<rparr>"
  have "fst (executeSql isoTime selectAllSQL [] (localStore [])) = Inr []"
    by (simp add: executeSql_select [OF selectAllSQL_kind] sortBy_def)
  moreover have "readAll (snd (executeSql isoTime insertSQL
      (addHikeParams ''2024-05-02T08:00:00.000Z'' snowdon) (localStore []))) = [snowdon]"
    by (simp add: executeSql_insert [OF insertSQL_kind] addHikeParams_snowdon)
  ultimately show ?thesis
    using unreadable_blob_reads_as_empty [of ?st isoTime selectAllSQL "[]"]
      unreadable_blob_reads_as_empty [of ?st isoTime insertSQL
        "addHikeParams ''2024-05-02T08:00:00.000Z'' snowdon"]
    by (simp add: localStore_def)
qed

section \<open>The service\<close>

lemma newService_bound: "isInitialized (newService env st) \<and> db (newService env st) \<noteq> None"
  by (simp add: newService_def initializeDatabase_def createMockDatabase_def split: option.splits)

lemma executeTransaction_keeps_bound:
  assumes "isInitialized s" and "db s \<noteq> None"
  shows "fst (executeTransaction P sql ps s) \<noteq> Inl NotInitialized \<and>
         isInitialized (snd (executeTransaction P sql ps s)) \<and>
         db (snd (executeTransaction P sql ps s)) \<noteq> None"
  using assms
  by (auto simp add: executeTransaction_def Let_def createMockDatabase_def hasTransaction_def
        resolve_def split_def
      split: option.splits database.splits sum.splits)

lemma runAll_bound:
  "isInitialized s \<Longrightarrow> db s \<noteq> None \<Longrightarrow> Inl NotInitialized \<notin> set (runAll P stmts s)"
proof (induction stmts arbitrary: s)
  case Nil
  then show ?case by simp
next
  case (Cons stmt stmts)
  obtain sql ps where stmt: "stmt = (sql, ps)" by (cases stmt)
  obtain r s' where e: "executeTransaction P sql ps s = (r, s')"
    by (cases "executeTransaction P sql ps s")
  from executeTransaction_keeps_bound [OF Cons.prems, of P sql ps] e
  have "r \<noteq> Inl NotInitialized" and "isInitialized s'" and "db s' \<noteq> None"
    by simp_all
  with Cons.IH [of s'] show ?case
    by (simp add: stmt e)
qed

lemma newService_falls_back:
  "tryRaises env \<or> isWeb env \<or> openAttempt env = None \<Longrightarrow> db (newService env st) = Some MockDb"
  by (auto simp add: newService_def initializeDatabase_def createMockDatabase_def)

text \<open>
  Claim C10. In every environment the constructed service is initialised and has a
  backend; it is the fallback store when the outer \<^verbatim>\<open>try\<close> block raises, on the web, and
  when no open call gives a handle (it is absent, throws or returns nothing). For every
  sequence of statements run on the constructed service, with any engine, no result is
  the failure of the \<^verbatim>\<open>Database not initialized\<close> branch.
\<close>

theorem backend_always_bound:
  "isInitialized (newService env st) \<and> db (newService env st) \<noteq> None \<and>
   (tryRaises env \<or> isWeb env \<or> openAttempt env = None \<longrightarrow>
      db (newService env st) = Some MockDb) \<and>
   Inl NotInitialized \<notin> set (runAll P stmts (newService env st))"
  using newService_bound [of env st] runAll_bound [of "newService env st" P stmts]
    newService_falls_back [of env st]
  by blast

lemma executeTransaction_native:
  assumes "isInitialized s" and "db s = Some (NativeDb n)"
  shows "executeTransaction P sql ps s =
     (resolve (fst (nativeExec P sql ps n)), s\<lparr>db := Some (NativeDb (snd (nativeExec P sql ps n)))\<rparr>)"
  using assms by (simp add: executeTransaction_def hasTransaction_def split_def Let_def)

lemma nativeExec_recording:
  "nativeExec (recording P) sql ps (n, journal) =
     (fst (nativeExec P sql ps n), (snd (nativeExec P sql ps n), journal @ [(sql, ps)]))"
  by (simp add: recording_def split_def)

text \<open>
  Claim C6. \<^verbatim>\<open>resetDatabase\<close> issues the drop statement; when it fails, the result is that
  failure and the state is the one the drop left; when it succeeds, the result and state
  are those of the create statement issued next. On an engine with a journal: after a
  failed drop the journal has gained the drop statement alone, after a successful drop it
  has gained the drop statement and then the create statement.
\<close>

theorem reset_stops_at_failed_drop:
  "(\<forall>e s'. executeTransaction Q dropTableSQL [] s = (Inl e, s') \<longrightarrow>
      resetDatabase Q s = (Inl e, s')) \<and>
   (\<forall>dropped s'. executeTransaction Q dropTableSQL [] s = (Inr dropped, s') \<longrightarrow>
      resetDatabase Q s = executeTransaction Q createTableSQL [] s') \<and>
   (\<forall>n journal message n'.
      isInitialized t \<and> db t = Some (NativeDb (n, journal)) \<and>
      nativeExec P dropTableSQL [] n = (Inl message, n') \<longrightarrow>
      resetDatabase (recording P) t =
        (Inl (BackendError message),
         t\<lparr>db := Some (NativeDb (n', journal @ [(dropTableSQL, [])]))\<rparr>)) \<and>
   (\<forall>n journal dropped n'.
      isInitialized t \<and> db t = Some (NativeDb (n, journal)) \<and>
      nativeExec P dropTableSQL [] n = (Inr dropped, n') \<longrightarrow>
      snd (resetDatabase (recording P) t) =
        t\<lparr>db := Some (NativeDb (snd (nativeExec P createTableSQL [] n'),
                journal @ [(dropTableSQL, []), (createTableSQL, [])]))\<rparr>)"
proof (intro conjI allI impI)
  fix e s'
  assume "executeTransaction Q dropTableSQL [] s = (Inl e, s')"
  then show "resetDatabase Q s = (Inl e, s')"
    by (simp add: resetDatabase_def)
next
  fix dropped s'
  assume "executeTransaction Q dropTableSQL [] s = (Inr dropped, s')"
  then show "resetDatabase Q s = executeTransaction Q createTableSQL [] s'"
    by (simp add: resetDatabase_def initDatabase_def)
next
  fix n journal message n'
  assume a: "isInitialized t \<and> db t = Some (NativeDb (n, journal)) \<and>
      nativeExec P dropTableSQL [] n = (Inl message, n')"
  then have "executeTransaction (recording P) dropTableSQL [] t =
      (Inl (BackendError message), t\<lparr>db := Some (NativeDb (n', journal @ [(dropTableSQL, [])]))\<rparr>)"
    by (simp add: executeTransaction_native nativeExec_recording resolve_def)
  then show "resetDatabase (recording P) t =
      (Inl (BackendError message), t\<lparr>db := Some (NativeDb (n', journal @ [(dropTableSQL, [])]))\<rparr>)"
    by (simp add: resetDatabase_def)
next
  fix n journal dropped n'
  assume a: "isInitialized t \<and> db t = Some (NativeDb (n, journal)) \<and>
      nativeExec P dropTableSQL [] n = (Inr dropped, n')"
  then have "executeTransaction (recording P) dropTableSQL [] t =
      (Inr dropped, t\<lparr>db := Some (NativeDb (n', journal @ [(dropTableSQL, [])]))\<rparr>)"
    by (simp add: executeTransaction_native nativeExec_recording resolve_def)
  with a show "snd (resetDatabase (recording P) t) =
        t\<lparr>db := Some (NativeDb (snd (nativeExec P createTableSQL [] n'),
                journal @ [(dropTableSQL, []), (createTableSQL, [])]))\<rparr>"
    by (simp add: resetDatabase_def initDatabase_def executeTransaction_native nativeExec_recording)
qed

lemma newService_native:
  "newService (nativeEnvironment n) st = \<lparr>db = Some (NativeDb n), isInitialized = True, mock = st\<rparr>"
  by (simp add: newService_def initializeDatabase_def nativeEnvironment_def openAttempt_def)

lemma brokenEngine_drop: "nativeExec brokenEngine dropTableSQL [] () = (Inl ''disk I/O error'', ())"
  by (simp add: brokenEngine_def dropTableSQL_kind)

text \<open>
  Claim C6 on an engine that fails every drop: the result is the engine's failure and
  the journal holds the drop statement only.
\<close>

theorem reset_stops_at_failed_drop_witness:
  "resetDatabase (recording brokenEngine) (newService (nativeEnvironment ((), [])) (localStore [])) =
     (Inl (BackendError ''disk I/O error''),
      \<lparr>db = Some (NativeDb ((), [(dropTableSQL, [])])), isInitialized = True, mock = localStore []\<rparr>)"
  using reset_stops_at_failed_drop [of "recording brokenEngine"
      "newService (nativeEnvironment ((), [])) (localStore [])"
      "newService (nativeEnvironment ((), [])) (localStore [])" brokenEngine]
    brokenEngine_drop
  by (simp add: newService_native)

text \<open>
  Claim C10 at two environments: a device whose engine opens, with two statements run,
  and a browser in which the \<^verbatim>\<open>try\<close> block raises.
\<close>
theorem backend_always_bound_witness:
  "Inl NotInitialized \<notin> set (runAll brokenEngine [(dropTableSQL, []), (selectAllSQL, [])]
      (newService (nativeEnvironment ()) (localStore []))) \<and>
   db (newService (webEnvironment\<lparr>tryRaises := True\<rparr>) (localStore [])) \<noteq> None"
  using backend_always_bound [of "nativeEnvironment ()" "localStore []" brokenEngine
      "[(dropTableSQL, []), (selectAllSQL, [])]"]
    backend_always_bound [of "webEnvironment\<lparr>tryRaises := True\<rparr>" "localStore []" brokenEngine "[]"]
  by simp

lemma orEmpty_orEmpty [simp]: "orEmpty (orEmpty v) = orEmpty v"
  by (cases v) (simp_all add: orEmpty_def truthy_def)

lemma orEmpty_missing: "missing v \<Longrightarrow> orEmpty v = JStr []"
  by (auto simp add: missing_def orEmpty_def truthy_def)

lemma orEmpty_present [simp]: "\<not> missing (orEmpty v)"
  by (cases v) (simp_all add: missing_def orEmpty_def truthy_def)

lemma hikeWithDefaults_twice: "addHikeParams now (hikeWithDefaults h) = addHikeParams now h"
  by (simp add: addHikeParams_def hikeWithDefaults_def)

lemma insertedRow_addHikeParams:
  "insertedRow (addHikeParams now h) = (hikeWithDefaults h)\<lparr>h_createdAt := JStr now\<rparr>"
  by (simp add: insertedRow_def addHikeParams_def hikeWithDefaults_def param_def)

lemma addHike_mock:
  assumes "isInitialized s" and "db s = Some MockDb"
  shows "addHike P now h s =
     (Inr [], s\<lparr>mock := writeAll (readAll (mock s) @ [insertedRow (addHikeParams now h)]) (mock s)\<rparr>)"
  using assms
  by (simp add: addHike_def executeTransaction_mock executeSql_insert [OF insertSQL_kind] resolve_def)

text \<open>
  Claim C8. On a service bound to the fallback store, \<^verbatim>\<open>addHike\<close> and the exported wrapper
  append one and the same row. Each of its eleven fields is the empty string when that
  field of the input is missing, \<^verbatim>\<open>undefined\<close> or \<^verbatim>\<open>null\<close>; its \<^verbatim>\<open>createdAt\<close> is the current
  time; and no parameter handed to the backend is \<^verbatim>\<open>undefined\<close> or \<^verbatim>\<open>null\<close>.
\<close>
theorem create_fills_missing_fields:
  assumes "isInitialized s" and "db s = Some MockDb"
  shows "\<exists>row.
           readAll (mock (snd (addHike P now h s))) = readAll (mock s) @ [row] \<and>
           readAll (mock (snd (addHikeLegacy P now h s))) = readAll (mock s) @ [row] \<and>
           (missing (h_id h) \<longrightarrow> h_id row = JStr []) \<and>
           (missing (h_name h) \<longrightarrow> h_name row = JStr []) \<and>
           (missing (h_location h) \<longrightarrow> h_location row = JStr []) \<and>
           (missing (h_date h) \<longrightarrow> h_date row = JStr []) \<and>
           (missing (h_parking h) \<longrightarrow> h_parking row = JStr []) \<and>
           (missing (h_length h) \<longrightarrow> h_length row = JStr []) \<and>
           (missing (h_difficulty h) \<longrightarrow> h_difficulty row = JStr []) \<and>
           (missing (h_description h) \<longrightarrow> h_description row = JStr []) \<and>
           (missing (h_weather h) \<longrightarrow> h_weather row = JStr []) \<and>
           (missing (h_rating h) \<longrightarrow> h_rating row = JStr []) \<and>
           (missing (h_companions h) \<longrightarrow> h_companions row = JStr []) \<and>
           h_createdAt row = JStr now \<and>
           (\<forall>v\<in>set (addHikeParams now h). \<not> missing v) \<and>
           row = insertedRow (addHikeParams now h)"
proof (intro exI [of _ "insertedRow (addHikeParams now h)"] conjI)
  show "readAll (mock (snd (addHike P now h s))) =
          readAll (mock s) @ [insertedRow (addHikeParams now h)]"
    using assms by (simp add: addHike_mock)
  show "readAll (mock (snd (addHikeLegacy P now h s))) =
          readAll (mock s) @ [insertedRow (addHikeParams now h)]"
    using assms by (simp add: addHikeLegacy_def addHike_mock hikeWithDefaults_twice)
  show "\<forall>v\<in>set (addHikeParams now h). \<not> missing v"
    by (simp add: addHikeParams_def hikeWithDefaults_def) (simp add: missing_def)
qed (simp_all add: insertedRow_addHikeParams hikeWithDefaults_def orEmpty_missing)

text \<open>
  Claim C8 at a hike without description, rating and companions and with a \<^verbatim>\<open>null\<close>
  weather: the stored row has the empty string in the four fields.
\<close>

theorem create_fills_missing_fields_witness:
  "readAll (mock (snd (addHikeLegacy webPlatform ''2024-05-02T08:00:00.000Z''
      \<lparr>h_id = JStr ''1'', h_name = JStr ''Snowdon'', h_location = JStr ''Wales'',
        h_date = JStr ''2024-05-01T09:00:00.000Z'', h_parking = JStr ''Yes'',
        h_length = JStr ''8.5'', h_difficulty = JStr ''Hard'', h_description = JUndefined,
        h_weather = JNull, h_rating = JUndefined, h_companions = JUndefined,
        h_createdAt = JUndefined\<rparr>
      (newService webEnvironment (localStore []))))) = [snowdon]"
proof -
  let ?h = "\<lparr>h_id = JStr ''1'', h_name = JStr ''Snowdon'', h_location = JStr ''Wales'',
        h_date = JStr ''2024-05-01T09:00:00.000Z'', h_parking = JStr ''Yes'',
        h_length = JStr ''8.5'', h_difficulty = JStr ''Hard'', h_description = JUndefined,
        h_weather = JNull, h_rating = JUndefined, h_companions = JUndefined,
        h_createdAt = JUndefined\<rparr>"
  have "insertedRow (addHikeParams ''2024-05-02T08:00:00.000Z'' ?h) = snowdon"
    by (simp add: insertedRow_addHikeParams hikeWithDefaults_def orEmpty_def truthy_def snowdon_def)
  then show ?thesis
    using create_fills_missing_fields [of "newService webEnvironment (localStore [])" webPlatform
        "''2024-05-02T08:00:00.000Z''" ?h]
    by (auto simp add: newService_web)
qed

end
